theory Spec2Isabelle
  imports Main
begin

section \<open>Personal Access Token client of the Hub API (internal/hub/tokens.go)\<close>

text \<open>
  The module is a thin binding over HTTP and JSON.  Everything it calls that lives outside
  \<^verbatim>\<open>tokens.go\<close> is a parameter of the model, collected in the record \<open>env\<close>: the URL
  parser of \<^verbatim>\<open>net/url\<close>, \<^verbatim>\<open>uuid.Parse\<close>, the decoder \<^verbatim>\<open>json.Unmarshal\<close> at the two
  response types, the page-size constant \<^verbatim>\<open>itemsPerPage\<close> and the request executor behind
  \<^verbatim>\<open>c.doRequest\<close>.  The remote side is a state \<open>'w\<close> that only the executor reads and
  changes.  Errors are values: every \<^verbatim>\<open>return nil, err\<close> of the source is an \<open>Inl\<close>.
\<close>

subsection \<open>Constants\<close>

definition TokensURL :: string where
  "TokensURL = ''/v2/api_tokens''"

text \<open>\<^verbatim>\<open>fmt.Sprintf(TokenURL, tokenUUID)\<close> with \<^verbatim>\<open>TokenURL = "/v2/api_tokens/%s"\<close>: the
  verb \<^verbatim>\<open>%s\<close> writes a string argument unchanged.\<close>

definition TokenURL :: "string \<Rightarrow> string" where
  "TokenURL tokenUUID = ''/v2/api_tokens/'' @ tokenUUID"

text \<open>The allow-list is a Go map used as a set; here a map to \<open>unit\<close>.\<close>

definition validScopes :: "string \<rightharpoonup> unit" where
  "validScopes = [''repo:public_read'' \<mapsto> ()]"

subsection \<open>Errors\<close>

text \<open>
  One constructor for each place an error is born: \<^verbatim>\<open>fmt.Errorf("invalid scope %q", scope)\<close>
  carries the scope; the others carry the message of the library call that failed
  (\<^verbatim>\<open>uuid.Parse\<close>, \<^verbatim>\<open>json.Marshal\<close>, \<^verbatim>\<open>json.Unmarshal\<close>, the executor,
  \<^verbatim>\<open>url.Parse\<close> directly or inside \<^verbatim>\<open>http.NewRequest\<close>).
\<close>

datatype error =
    InvalidScope string
  | InvalidUUID string
  | EncodeError string
  | DecodeError string
  | TransportError string
  | URLError string

subsection \<open>Data\<close>

text \<open>A JSON document, as \<^verbatim>\<open>json.Marshal\<close> lays it out before rendering it to bytes:
  an object is the list of its members in emission order.\<close>

datatype json =
    JString string
  | JBool bool
  | JArray "json list"
  | JObject "(string \<times> json) list"

text \<open>The domain entity.  \<open>'u\<close> is \<^verbatim>\<open>uuid.UUID\<close>, \<open>'t\<close> is \<^verbatim>\<open>time.Time\<close>.\<close>

record ('u, 't) Token =
  UUID :: 'u
  ClientID :: string
  CreatorIP :: string
  CreatorUA :: string
  CreatedAt :: 't
  LastUsed :: 't
  GeneratedBy :: string
  IsActive :: bool
  Token :: string
  Description :: string
  Scopes :: "string list"

text \<open>\<^verbatim>\<open>hubTokenRequest\<close>; the JSON names are \<^verbatim>\<open>token_label\<close>, \<^verbatim>\<open>is_active\<close>,
  \<^verbatim>\<open>scopes\<close>, each tagged \<^verbatim>\<open>omitempty\<close>.\<close>

record hubTokenRequest =
  reqDescription :: string
  reqIsActive :: bool
  reqScopes :: "string list"

text \<open>\<^verbatim>\<open>hubTokenResult\<close>, the wire token object; \<open>resTokenLabel\<close> is the field tagged
  \<^verbatim>\<open>token_label\<close>.\<close>

record 't hubTokenResult =
  resUUID :: string
  resClientID :: string
  resCreatorIP :: string
  resCreatorUA :: string
  resCreatedAt :: 't
  resLastUsed :: 't
  resGeneratedBy :: string
  resIsActive :: bool
  resToken :: string
  resTokenLabel :: string
  resScopes :: "string list"

text \<open>\<^verbatim>\<open>hubTokenResponse\<close>, the paged envelope.\<close>

record 't hubTokenResponse =
  Count :: int
  Next :: string
  Previous :: string
  Results :: "'t hubTokenResult list"

text \<open>What \<^verbatim>\<open>http.NewRequest\<close> builds: the method, the URL as given, optional body.\<close>

record request =
  Method :: string
  URL :: string
  Body :: "json option"

text \<open>The fields of \<^verbatim>\<open>Client\<close> that this file reads.\<close>

record Client =
  domain :: string
  token :: string
  fetchAllElements :: bool

text \<open>The remote side, and the requests handed to the executor so far, oldest first.\<close>

record 'w state =
  world :: 'w
  sent :: "request list"

record ('u, 't, 'l, 'w) env =
  itemsPerPage :: int
  url_Parse :: "string \<Rightarrow> string + 'l"
  url_set_RawQuery :: "'l \<Rightarrow> string \<Rightarrow> 'l"
  url_String :: "'l \<Rightarrow> string"
  uuid_Parse :: "string \<Rightarrow> string + 'u"
  json_Unmarshal_result :: "string \<Rightarrow> string + 't hubTokenResult"
  json_Unmarshal_response :: "string \<Rightarrow> string + 't hubTokenResponse"
  executor :: "request \<Rightarrow> string \<Rightarrow> 'w \<Rightarrow> (string + string) \<times> 'w"

subsection \<open>Library calls with a fixed shape\<close>

text \<open>\<^verbatim>\<open>http.NewRequest(method, url, body)\<close> fails exactly when \<^verbatim>\<open>url.Parse\<close> rejects the
  URL (the four methods used here are valid tokens).\<close>

definition http_NewRequest ::
  "('u, 't, 'l, 'w) env \<Rightarrow> string \<Rightarrow> string \<Rightarrow> json option \<Rightarrow> error + request" where
  "http_NewRequest env m u b =
     (case url_Parse env u of
        Inl err \<Rightarrow> Inl (URLError err)
      | Inr _ \<Rightarrow> Inr \<lparr>Method = m, URL = u, Body = b\<rparr>)"

text \<open>\<^verbatim>\<open>c.doRequest(req, WithHubToken(tok))\<close>: the executor runs once on the remote state;
  its error is the transport error, its value the raw response body.\<close>

definition doRequest ::
  "('u, 't, 'l, 'w) env \<Rightarrow> request \<Rightarrow> string \<Rightarrow> 'w state \<Rightarrow> (error + string) \<times> 'w state" where
  "doRequest env req tok s =
     (case executor env req tok (world s) of
        (r, w') \<Rightarrow>
          ((case r of Inl err \<Rightarrow> Inl (TransportError err) | Inr response \<Rightarrow> Inr response),
           \<lparr>world = w', sent = sent s @ [req]\<rparr>))"

text \<open>\<^verbatim>\<open>json.Marshal\<close> of a \<^verbatim>\<open>hubTokenRequest\<close>: members in field order, a member left out
  when its field is the empty string, \<^verbatim>\<open>false\<close>, or a slice of length 0.  No value of
  this struct makes the encoder fail, so the result is always \<open>Inr\<close>.\<close>

definition json_Marshal :: "hubTokenRequest \<Rightarrow> string + json" where
  "json_Marshal r =
     Inr (JObject
       ((if reqDescription r = [] then [] else [(''token_label'', JString (reqDescription r))]) @
        (if reqIsActive r then [(''is_active'', JBool True)] else []) @
        (if reqScopes r = [] then [] else [(''scopes'', JArray (map JString (reqScopes r)))])))"

text \<open>\<^verbatim>\<open>fmt.Sprintf("%v", n)\<close> for an \<^verbatim>\<open>int\<close>: decimal digits, with a sign when negative.\<close>

fun digits :: "nat \<Rightarrow> string" where
  "digits n =
     (if n < 10 then [''0123456789'' ! n]
      else digits (n div 10) @ [''0123456789'' ! (n mod 10)])"

declare digits.simps [simp del]

definition fmt_v :: "int \<Rightarrow> string" where
  "fmt_v i = (if i < 0 then CHR ''-'' # digits (nat (- i)) else digits (nat i))"

subsection \<open>The functions of tokens.go\<close>

fun validateScopes :: "string list \<Rightarrow> error option" where
  "validateScopes [] = None"
| "validateScopes (scope # scopes) =
     (case validScopes scope of
        None \<Rightarrow> Some (InvalidScope scope)
      | Some _ \<Rightarrow> validateScopes scopes)"

definition convertToken ::
  "('u, 't, 'l, 'w) env \<Rightarrow> 't hubTokenResult \<Rightarrow> error + ('u, 't) Token" where
  "convertToken env response =
     (case uuid_Parse env (resUUID response) of
        Inl err \<Rightarrow> Inl (InvalidUUID err)
      | Inr u \<Rightarrow>
          Inr \<lparr>UUID = u,
               ClientID = resClientID response,
               CreatorIP = resCreatorIP response,
               CreatorUA = resCreatorUA response,
               CreatedAt = resCreatedAt response,
               LastUsed = resLastUsed response,
               GeneratedBy = resGeneratedBy response,
               IsActive = resIsActive response,
               Token = resToken response,
               Description = resTokenLabel response,
               Scopes = resScopes response\<rparr>)"

definition CreateToken ::
  "('u, 't, 'l, 'w) env \<Rightarrow> Client \<Rightarrow> string \<Rightarrow> string list \<Rightarrow> 'w state
     \<Rightarrow> (error + ('u, 't) Token) \<times> 'w state" where
  "CreateToken env c description scopes s =
     (case validateScopes scopes of
        Some err \<Rightarrow> (Inl err, s)
      | None \<Rightarrow>
     (case json_Marshal \<lparr>reqDescription = description, reqIsActive = False, reqScopes = scopes\<rparr> of
        Inl err \<Rightarrow> (Inl (EncodeError err), s)
      | Inr data \<Rightarrow>
     (case http_NewRequest env ''POST'' (domain c @ TokensURL) (Some data) of
        Inl err \<Rightarrow> (Inl err, s)
      | Inr req \<Rightarrow>
     (case doRequest env req (token c) s of
        (Inl err, s') \<Rightarrow> (Inl err, s')
      | (Inr response, s') \<Rightarrow>
     (case json_Unmarshal_result env response of
        Inl err \<Rightarrow> (Inl (DecodeError err), s')
      | Inr tokenResponse \<Rightarrow>
     (case convertToken env tokenResponse of
        Inl err \<Rightarrow> (Inl err, s')
      | Inr tok \<Rightarrow> (Inr tok, s')))))))"

definition GetToken ::
  "('u, 't, 'l, 'w) env \<Rightarrow> Client \<Rightarrow> string \<Rightarrow> 'w state
     \<Rightarrow> (error + ('u, 't) Token) \<times> 'w state" where
  "GetToken env c tokenUUID s =
     (case http_NewRequest env ''GET'' (domain c @ TokenURL tokenUUID) None of
        Inl err \<Rightarrow> (Inl err, s)
      | Inr req \<Rightarrow>
     (case doRequest env req (token c) s of
        (Inl err, s') \<Rightarrow> (Inl err, s')
      | (Inr response, s') \<Rightarrow>
     (case json_Unmarshal_result env response of
        Inl err \<Rightarrow> (Inl (DecodeError err), s')
      | Inr tokenResponse \<Rightarrow>
     (case convertToken env tokenResponse of
        Inl err \<Rightarrow> (Inl err, s')
      | Inr tok \<Rightarrow> (Inr tok, s')))))"

definition UpdateToken ::
  "('u, 't, 'l, 'w) env \<Rightarrow> Client \<Rightarrow> string \<Rightarrow> string \<Rightarrow> bool \<Rightarrow> 'w state
     \<Rightarrow> (error + ('u, 't) Token) \<times> 'w state" where
  "UpdateToken env c tokenUUID description isActive s =
     (case json_Marshal \<lparr>reqDescription = description, reqIsActive = isActive, reqScopes = []\<rparr> of
        Inl err \<Rightarrow> (Inl (EncodeError err), s)
      | Inr data \<Rightarrow>
     (case http_NewRequest env ''PATCH'' (domain c @ TokenURL tokenUUID) (Some data) of
        Inl err \<Rightarrow> (Inl err, s)
      | Inr req \<Rightarrow>
     (case doRequest env req (token c) s of
        (Inl err, s') \<Rightarrow> (Inl err, s')
      | (Inr response, s') \<Rightarrow>
     (case json_Unmarshal_result env response of
        Inl err \<Rightarrow> (Inl (DecodeError err), s')
      | Inr tokenResponse \<Rightarrow>
     (case convertToken env tokenResponse of
        Inl err \<Rightarrow> (Inl err, s')
      | Inr tok \<Rightarrow> (Inr tok, s'))))))"

text \<open>\<^verbatim>\<open>CreateToken\<close>, \<^verbatim>\<open>GetToken\<close> and \<^verbatim>\<open>UpdateToken\<close> end in the same lines: run the
  request, decode the body, convert the result.  \<open>receiveToken\<close> names that tail for the
  proofs; the three functions above are stated without it and shown equal to their
  form with it (\<open>CreateToken_receive\<close> and its siblings).\<close>

definition receiveToken ::
  "('u, 't, 'l, 'w) env \<Rightarrow> request \<Rightarrow> string \<Rightarrow> 'w state
     \<Rightarrow> (error + ('u, 't) Token) \<times> 'w state" where
  "receiveToken env req tok s =
     (case doRequest env req tok s of
        (Inl err, s') \<Rightarrow> (Inl err, s')
      | (Inr response, s') \<Rightarrow>
     (case json_Unmarshal_result env response of
        Inl err \<Rightarrow> (Inl (DecodeError err), s')
      | Inr tokenResponse \<Rightarrow>
     (case convertToken env tokenResponse of
        Inl err \<Rightarrow> (Inl err, s')
      | Inr tok \<Rightarrow> (Inr tok, s'))))"

text \<open>\<^verbatim>\<open>RevokeToken\<close> returns only an error: \<open>None\<close> is Go's \<^verbatim>\<open>nil\<close>.\<close>

definition RevokeToken ::
  "('u, 't, 'l, 'w) env \<Rightarrow> Client \<Rightarrow> string \<Rightarrow> 'w state \<Rightarrow> error option \<times> 'w state" where
  "RevokeToken env c tokenUUID s =
     (case http_NewRequest env ''DELETE'' (domain c @ TokenURL tokenUUID) None of
        Inl err \<Rightarrow> (Some err, s)
      | Inr req \<Rightarrow>
     (case doRequest env req (token c) s of
        (Inl err, s') \<Rightarrow> (Some err, s')
      | (Inr _, s') \<Rightarrow> (None, s')))"

text \<open>The \<^verbatim>\<open>range\<close> loop of \<^verbatim>\<open>getTokensPage\<close>, with the slice \<^verbatim>\<open>tokens\<close> it appends to.\<close>

fun convertResults ::
  "('u, 't, 'l, 'w) env \<Rightarrow> 't hubTokenResult list \<Rightarrow> ('u, 't) Token list
     \<Rightarrow> error + ('u, 't) Token list" where
  "convertResults env [] tokens = Inr tokens"
| "convertResults env (result # results) tokens =
     (case convertToken env result of
        Inl err \<Rightarrow> Inl err
      | Inr tok \<Rightarrow> convertResults env results (tokens @ [tok]))"

definition getTokensPage ::
  "('u, 't, 'l, 'w) env \<Rightarrow> Client \<Rightarrow> string \<Rightarrow> 'w state
     \<Rightarrow> (error + ('u, 't) Token list \<times> string) \<times> 'w state" where
  "getTokensPage env c u s =
     (case http_NewRequest env ''GET'' u None of
        Inl err \<Rightarrow> (Inl err, s)
      | Inr req \<Rightarrow>
     (case doRequest env req (token c) s of
        (Inl err, s') \<Rightarrow> (Inl err, s')
      | (Inr response, s') \<Rightarrow>
     (case json_Unmarshal_response env response of
        Inl err \<Rightarrow> (Inl (DecodeError err), s')
      | Inr hubResponse \<Rightarrow>
     (case convertResults env (Results hubResponse) [] of
        Inl err \<Rightarrow> (Inl err, s')
      | Inr tokens \<Rightarrow> (Inr (tokens, Next hubResponse), s')))))"

text \<open>The loop \<^verbatim>\<open>for next != ""\<close> of \<^verbatim>\<open>GetTokens\<close>.  Nothing bounds it, so it is a partial
  function: \<open>None\<close> means that the loop never ends.\<close>

partial_function (option) fetchRest ::
  "('u, 't, 'l, 'w) env \<Rightarrow> Client \<Rightarrow> ('u, 't) Token list \<Rightarrow> string \<Rightarrow> 'w state
     \<Rightarrow> ((error + ('u, 't) Token list) \<times> 'w state) option" where
  "fetchRest env c tokens nxt s =
     (if nxt = [] then Some (Inr tokens, s)
      else
        (case getTokensPage env c nxt s of
           (Inl err, s') \<Rightarrow> Some (Inl err, s')
         | (Inr (pageTokens, n), s') \<Rightarrow> fetchRest env c (tokens @ pageTokens) n s'))"

declare fetchRest.simps [code]

text \<open>\<^verbatim>\<open>q.Encode()\<close> sorts by key: \<^verbatim>\<open>page\<close> comes before \<^verbatim>\<open>page_size\<close>; digits and the
  sign need no escaping.\<close>

definition GetTokens ::
  "('u, 't, 'l, 'w) env \<Rightarrow> Client \<Rightarrow> 'w state
     \<Rightarrow> ((error + ('u, 't) Token list) \<times> 'w state) option" where
  "GetTokens env c s =
     (case url_Parse env (domain c @ TokensURL) of
        Inl err \<Rightarrow> Some (Inl (URLError err), s)
      | Inr u \<Rightarrow>
     (case getTokensPage env c
             (url_String env
                (url_set_RawQuery env u (''page=1&page_size='' @ fmt_v (itemsPerPage env)))) s of
        (Inl err, s') \<Rightarrow> Some (Inl err, s')
      | (Inr (tokens, nxt), s') \<Rightarrow>
          (if fetchAllElements c then fetchRest env c tokens nxt s'
           else Some (Inr tokens, s'))))"

subsection \<open>Reading a request body\<close>

text \<open>The members of a JSON object; anything else has none.\<close>

fun members :: "json \<Rightarrow> (string \<times> json) list" where
  "members (JObject ms) = ms"
| "members (JString _) = []"
| "members (JBool _) = []"
| "members (JArray _) = []"

subsection \<open>Following the next links\<close>

text \<open>
  \<open>follows env c u s pages u' s'\<close>: starting with the link \<open>u\<close> in state \<open>s\<close>, each link in
  turn is non-empty and its page is fetched without error; \<open>pages\<close> lists what each page
  gave (its tokens and its next link), \<open>u'\<close> is the link that is current afterwards and
  \<open>s'\<close> the state reached.  This is the specification's "follows the next link", used to
  say which pages a call of \<open>GetTokens\<close> has seen.
\<close>

inductive follows ::
  "('u, 't, 'l, 'w) env \<Rightarrow> Client \<Rightarrow> string \<Rightarrow> 'w state
     \<Rightarrow> (('u, 't) Token list \<times> string) list \<Rightarrow> string \<Rightarrow> 'w state \<Rightarrow> bool"
  for env c where
    follows_none: "follows env c u s [] u s"
  | follows_page:
      "u \<noteq> [] \<Longrightarrow> getTokensPage env c u s = (Inr (pageTokens, n), s') \<Longrightarrow>
       follows env c n s' pages u' s'' \<Longrightarrow>
       follows env c u s ((pageTokens, n) # pages) u' s''"

text \<open>The request that \<open>getTokensPage\<close> builds for a link.\<close>

definition pageRequest :: "string \<Rightarrow> request" where
  "pageRequest u = \<lparr>Method = ''GET'', URL = u, Body = None\<rparr>"

text \<open>The URL of the first page, as \<open>GetTokens\<close> computes it from the parsed collection URL.\<close>

definition firstPage :: "('u, 't, 'l, 'w) env \<Rightarrow> 'l \<Rightarrow> string" where
  "firstPage env l =
     url_String env (url_set_RawQuery env l (''page=1&page_size='' @ fmt_v (itemsPerPage env)))"

subsection \<open>Test doubles\<close>

text \<open>
  Stand-ins for the parameters, to run the model on concrete inputs: a URL parser that
  rejects the control character DEL (as \<^verbatim>\<open>url.Parse\<close> does) and accepts the rest, a UUID
  parser that looks at the length only, decoders that know a few bodies by name, an
  executor that replays canned responses and one that serves the same page forever.
\<close>

definition mock_url_Parse :: "string \<Rightarrow> string + string" where
  "mock_url_Parse u =
     (if CHR 0x7F \<in> set u then Inl ''invalid control character in URL'' else Inr u)"

definition mock_uuid_Parse :: "string \<Rightarrow> string + string" where
  "mock_uuid_Parse x = (if length x = 36 then Inr x else Inl ''invalid UUID length'')"

definition wire :: "string \<Rightarrow> string \<Rightarrow> nat hubTokenResult" where
  "wire u label =
     \<lparr>resUUID = u, resClientID = ''HUB'', resCreatorIP = ''127.0.0.1'',
      resCreatorUA = ''hub-tool'', resCreatedAt = 1, resLastUsed = 2,
      resGeneratedBy = ''manual'', resIsActive = True, resToken = ''secret'',
      resTokenLabel = label, resScopes = [''repo:public_read'']\<rparr>"

definition uuid1 :: string where "uuid1 = ''8208674e-d08a-426f-b6f4-e3aba7058459''"
definition uuid2 :: string where "uuid2 = ''00000000-0000-4000-8000-000000000002''"
definition uuid3 :: string where "uuid3 = ''00000000-0000-4000-8000-000000000003''"

definition mock_decode_result :: "string \<Rightarrow> string + nat hubTokenResult" where
  "mock_decode_result b =
     (if b = ''good'' then Inr (wire uuid1 ''d'')
      else if b = ''baduuid'' then Inr (wire ''not-a-uuid'' ''d'')
      else Inl ''unexpected end of JSON input'')"

definition mock_decode_response :: "string \<Rightarrow> string + nat hubTokenResponse" where
  "mock_decode_response b =
     (if b = ''page1'' then
        Inr \<lparr>Count = 3, Next = ''page2url'', Previous = [],
             Results = [wire uuid1 ''a'', wire uuid2 ''b'']\<rparr>
      else if b = ''page2'' then
        Inr \<lparr>Count = 3, Next = [], Previous = ''page1url'', Results = [wire uuid3 ''c'']\<rparr>
      else if b = ''pagebad'' then
        Inr \<lparr>Count = 2, Next = [], Previous = [],
             Results = [wire uuid1 ''a'', wire ''not-a-uuid'' ''b'']\<rparr>
      else if b = ''loop'' then
        Inr \<lparr>Count = 0, Next = ''again'', Previous = [], Results = []\<rparr>
      else Inl ''unexpected end of JSON input'')"

definition mock_env ::
  "(request \<Rightarrow> string \<Rightarrow> 'w \<Rightarrow> (string + string) \<times> 'w) \<Rightarrow> (string, nat, string, 'w) env" where
  "mock_env ex =
     \<lparr>itemsPerPage = 100, url_Parse = mock_url_Parse,
      url_set_RawQuery = (\<lambda>u q. u @ ''?'' @ q), url_String = (\<lambda>u. u),
      uuid_Parse = mock_uuid_Parse, json_Unmarshal_result = mock_decode_result,
      json_Unmarshal_response = mock_decode_response, executor = ex\<rparr>"

definition canned ::
  "request \<Rightarrow> string \<Rightarrow> (string + string) list
     \<Rightarrow> (string + string) \<times> (string + string) list" where
  "canned req tok w = (case w of [] \<Rightarrow> (Inl ''connection refused'', []) | r # rs \<Rightarrow> (r, rs))"

definition forever :: "request \<Rightarrow> string \<Rightarrow> unit \<Rightarrow> (string + string) \<times> unit" where
  "forever req tok w = (Inr ''loop'', w)"

definition mock_client :: "bool \<Rightarrow> Client" where
  "mock_client fetchAll =
     \<lparr>domain = ''https://hub.docker.com'', token = ''bearer'', fetchAllElements = fetchAll\<rparr>"

definition start :: "'w \<Rightarrow> 'w state" where
  "start w = \<lparr>world = w, sent = []\<rparr>"

definition token_of :: "string \<Rightarrow> string \<Rightarrow> (string, nat) Token" where
  "token_of u label =
     \<lparr>UUID = u, ClientID = ''HUB'', CreatorIP = ''127.0.0.1'', CreatorUA = ''hub-tool'',
      CreatedAt = 1, LastUsed = 2, GeneratedBy = ''manual'', IsActive = True,
      Token = ''secret'', Description = label, Scopes = [''repo:public_read'']\<rparr>"

section \<open>Properties\<close>

subsection \<open>Unfolding sets\<close>

lemmas mock_simps =
  mock_env_def mock_client_def start_def mock_url_Parse_def mock_uuid_Parse_def
  mock_decode_result_def mock_decode_response_def canned_def forever_def wire_def token_of_def
  uuid1_def uuid2_def uuid3_def

lemmas call_simps =
  TokensURL_def TokenURL_def validScopes_def http_NewRequest_def doRequest_def json_Marshal_def
  convertToken_def pageRequest_def firstPage_def fmt_v_def digits.simps

lemma validateScopes_all:
  "\<forall>x\<in>set scopes. x = ''repo:public_read'' \<Longrightarrow> validateScopes scopes = None"
  by (induction scopes) (simp_all add: validScopes_def)

lemma validateScopes_first:
  "\<forall>x\<in>set pre. x = ''repo:public_read'' \<Longrightarrow> bad \<noteq> ''repo:public_read'' \<Longrightarrow>
     validateScopes (pre @ bad # post) = Some (InvalidScope bad)"
  by (induction pre) (simp_all add: validScopes_def)

text \<open>
  Claim C1.  If some scope differs from \<^verbatim>\<open>repo:public_read\<close>, the list splits at the first
  such scope \<open>bad\<close> (everything before it is the valid scope) and \<open>CreateToken\<close> returns
  the error \<open>InvalidScope bad\<close> with the state untouched: nothing was sent.  If every
  scope is \<^verbatim>\<open>repo:public_read\<close>, \<open>validateScopes\<close> reports no error.
\<close>

theorem CreateToken_scope_validation:
  "((\<exists>x\<in>set scopes. x \<noteq> ''repo:public_read'') \<longrightarrow>
      (\<exists>pre bad post. scopes = pre @ bad # post \<and> (\<forall>x\<in>set pre. x = ''repo:public_read'') \<and>
         bad \<noteq> ''repo:public_read'' \<and>
         CreateToken env c description scopes s = (Inl (InvalidScope bad), s))) \<and>
   ((\<forall>x\<in>set scopes. x = ''repo:public_read'') \<longrightarrow> validateScopes scopes = None)"
proof (intro conjI impI)
  assume "\<exists>x\<in>set scopes. x \<noteq> ''repo:public_read''"
  then obtain pre bad post where
    split: "scopes = pre @ bad # post" and bad: "bad \<noteq> ''repo:public_read''" and
    pre: "\<forall>x\<in>set pre. \<not> x \<noteq> ''repo:public_read''"
    using split_list_first_prop [of scopes "\<lambda>x. x \<noteq> ''repo:public_read''"] by blast
  from pre have pre': "\<forall>x\<in>set pre. x = ''repo:public_read''" by simp
  from validateScopes_first [OF pre' bad]
  have "validateScopes scopes = Some (InvalidScope bad)" by (simp add: split)
  then have "CreateToken env c description scopes s = (Inl (InvalidScope bad), s)"
    by (simp add: CreateToken_def)
  with split pre' bad
  show "\<exists>pre bad post. scopes = pre @ bad # post \<and> (\<forall>x\<in>set pre. x = ''repo:public_read'') \<and>
          bad \<noteq> ''repo:public_read'' \<and>
          CreateToken env c description scopes s = (Inl (InvalidScope bad), s)"
    by blast
next
  assume "\<forall>x\<in>set scopes. x = ''repo:public_read''"
  then show "validateScopes scopes = None" by (rule validateScopes_all)
qed

theorem CreateToken_scope_validation_witness:
  "(\<exists>x\<in>set [''repo:public_read'', ''admin'', ''repo:write'']. x \<noteq> ''repo:public_read'') \<and>
   CreateToken (mock_env canned) (mock_client True) ''x''
       [''repo:public_read'', ''admin'', ''repo:write''] (start [Inr ''good''])
     = (Inl (InvalidScope ''admin''), start [Inr ''good'']) \<and>
   list_all (\<lambda>x. x = ''repo:public_read'') [''repo:public_read'', ''repo:public_read''] \<and>
   validateScopes [''repo:public_read'', ''repo:public_read''] = None"
  using CreateToken_scope_validation
          [of "[''repo:public_read'', ''admin'', ''repo:write'']" "mock_env canned"
              "mock_client True" "''x''" "start [Inr ''good'']"]
        CreateToken_scope_validation
          [of "[''repo:public_read'', ''repo:public_read'']" "mock_env canned"
              "mock_client True" "''x''" "start [Inr ''good'']"]
  by (simp add: CreateToken_def validScopes_def)

subsection \<open>Request and response mapping\<close>

lemma json_Marshal_members:
  "\<exists>ms. json_Marshal r = Inr (JObject ms) \<and>
     map_of ms ''token_label'' =
       (if reqDescription r = [] then None else Some (JString (reqDescription r))) \<and>
     map_of ms ''is_active'' = (if reqIsActive r then Some (JBool True) else None) \<and>
     map_of ms ''scopes'' =
       (if reqScopes r = [] then None else Some (JArray (map JString (reqScopes r))))"
  by (simp add: json_Marshal_def)

text \<open>
  Claim C5.  For a wire object whose \<^verbatim>\<open>uuid\<close> parses, the converted token has the wire
  \<^verbatim>\<open>token_label\<close> as its \<open>Description\<close> and every other field copied unchanged.  In the
  other direction a non-empty description is a member of the request object under the
  name \<^verbatim>\<open>token_label\<close>, and under no other name.
\<close>

theorem token_label_is_Description:
  "(uuid_Parse env (resUUID r) = Inr u \<longrightarrow>
      convertToken env r =
        Inr \<lparr>UUID = u, ClientID = resClientID r, CreatorIP = resCreatorIP r,
             CreatorUA = resCreatorUA r, CreatedAt = resCreatedAt r, LastUsed = resLastUsed r,
             GeneratedBy = resGeneratedBy r, IsActive = resIsActive r, Token = resToken r,
             Description = resTokenLabel r, Scopes = resScopes r\<rparr>) \<and>
   (d \<noteq> [] \<longrightarrow>
      (\<exists>ms. json_Marshal \<lparr>reqDescription = d, reqIsActive = a, reqScopes = sc\<rparr> = Inr (JObject ms) \<and>
            map_of ms ''token_label'' = Some (JString d) \<and>
            (\<forall>k. map_of ms k = Some (JString d) \<longrightarrow> k = ''token_label'')))"
  by (auto simp: convertToken_def json_Marshal_def split: if_splits)

theorem token_label_is_Description_witness:
  "mock_uuid_Parse (resUUID (wire uuid1 ''d'')) = Inr uuid1 \<and>
   convertToken (mock_env canned) (wire uuid1 ''d'') = Inr (token_of uuid1 ''d'') \<and>
   Description (token_of uuid1 ''d'') = ''d'' \<and>
   json_Marshal \<lparr>reqDescription = ''d'', reqIsActive = True, reqScopes = []\<rparr>
     = Inr (JObject [(''token_label'', JString ''d''), (''is_active'', JBool True)])"
  using token_label_is_Description
          [of "mock_env canned" "wire uuid1 ''d''" uuid1 "''d''" True "[]"]
  by (simp add: mock_simps call_simps)

text \<open>
  Claim C6.  \<open>UpdateToken\<close> with \<open>isActive = False\<close>: the PATCH that is sent carries the
  description only.  The member \<^verbatim>\<open>is_active\<close> is absent from the body, because
  \<^verbatim>\<open>omitempty\<close> drops a \<^verbatim>\<open>false\<close> boolean.
\<close>

lemma UpdateToken_body:
  "url_Parse env (domain c @ TokenURL tokenUUID) = Inr l \<Longrightarrow>
   sent (snd (UpdateToken env c tokenUUID description isActive s))
     = sent s @
       [\<lparr>Method = ''PATCH'', URL = domain c @ TokenURL tokenUUID,
         Body = Some (JObject
           ((if description = [] then [] else [(''token_label'', JString description)]) @
            (if isActive then [(''is_active'', JBool True)] else [])))\<rparr>]"
  by (simp add: UpdateToken_def json_Marshal_def http_NewRequest_def doRequest_def
      case_prod_beta sum.case_eq_if)

theorem UpdateToken_deactivate_omits_is_active:
  "sent (snd (UpdateToken (mock_env canned) (mock_client True) uuid1 ''d'' False
                (start [Inr ''good''])))
     = [\<lparr>Method = ''PATCH'', URL = ''https://hub.docker.com/v2/api_tokens/'' @ uuid1,
         Body = Some (JObject [(''token_label'', JString ''d'')])\<rparr>]"
  by (simp add: UpdateToken_def mock_simps call_simps)

text \<open>
  Claim C7.  Once the DELETE request is built, \<open>RevokeToken\<close> runs the executor once and
  returns its error as it is, or no error when it reports success; the response body is
  not looked at (the result does not depend on it, nor on any decoder).
\<close>

theorem RevokeToken_returns_executor_error:
  "http_NewRequest env ''DELETE'' (domain c @ TokenURL tokenUUID) None = Inr req \<Longrightarrow>
   executor env req (token c) (world s) = (r, w') \<Longrightarrow>
   RevokeToken env c tokenUUID s =
     ((case r of Inl msg \<Rightarrow> Some (TransportError msg) | Inr response \<Rightarrow> None),
      \<lparr>world = w', sent = sent s @ [req]\<rparr>)"
  by (simp add: RevokeToken_def doRequest_def split: sum.splits)

theorem RevokeToken_returns_executor_error_witness:
  "RevokeToken (mock_env canned) (mock_client True) uuid1 (start [Inl ''404 Not Found''])
     = (Some (TransportError ''404 Not Found''),
        \<lparr>world = [], sent = [\<lparr>Method = ''DELETE'',
            URL = ''https://hub.docker.com/v2/api_tokens/'' @ uuid1, Body = None\<rparr>]\<rparr>) \<and>
   RevokeToken (mock_env canned) (mock_client True) uuid1 (start [Inr ''not json at all''])
     = (None,
        \<lparr>world = [], sent = [\<lparr>Method = ''DELETE'',
            URL = ''https://hub.docker.com/v2/api_tokens/'' @ uuid1, Body = None\<rparr>]\<rparr>)"
  using RevokeToken_returns_executor_error
          [of "mock_env canned" "mock_client True" uuid1
              "\<lparr>Method = ''DELETE'', URL = ''https://hub.docker.com/v2/api_tokens/'' @ uuid1,
                Body = None\<rparr>"
              "start [Inl ''404 Not Found'']" "Inl ''404 Not Found''" "[]"]
        RevokeToken_returns_executor_error
          [of "mock_env canned" "mock_client True" uuid1
              "\<lparr>Method = ''DELETE'', URL = ''https://hub.docker.com/v2/api_tokens/'' @ uuid1,
                Body = None\<rparr>"
              "start [Inr ''not json at all'']" "Inr ''not json at all''" "[]"]
  by (simp add: mock_simps call_simps)

text \<open>
  Claim C8.  The empty scope list passes validation.  When the collection URL is one that
  \<^verbatim>\<open>http.NewRequest\<close> accepts, \<open>CreateToken\<close> then sends one POST whose body is the
  marshalled request, and that body has no member \<^verbatim>\<open>scopes\<close>.
\<close>

theorem CreateToken_empty_scopes:
  "validateScopes [] = None \<and>
   (\<forall>l. url_Parse env (domain c @ TokensURL) = Inr l \<longrightarrow>
      (\<exists>data. json_Marshal \<lparr>reqDescription = description, reqIsActive = False, reqScopes = []\<rparr>
                 = Inr data \<and>
              ''scopes'' \<notin> fst ` set (members data) \<and>
              sent (snd (CreateToken env c description [] s))
                = sent s @ [\<lparr>Method = ''POST'', URL = domain c @ TokensURL, Body = Some data\<rparr>]))"
  by (simp add: CreateToken_def json_Marshal_def http_NewRequest_def doRequest_def
      case_prod_beta sum.case_eq_if)

theorem CreateToken_empty_scopes_witness:
  "validateScopes [] = None \<and>
   url_Parse (mock_env canned) (domain (mock_client True) @ TokensURL)
     = Inr ''https://hub.docker.com/v2/api_tokens'' \<and>
   sent (snd (CreateToken (mock_env canned) (mock_client True) ''x'' [] (start [Inr ''good''])))
     = [\<lparr>Method = ''POST'', URL = ''https://hub.docker.com/v2/api_tokens'',
         Body = Some (JObject [(''token_label'', JString ''x'')])\<rparr>]"
  using CreateToken_empty_scopes
          [of "mock_env canned" "mock_client True" "''x''" "start [Inr ''good'']"]
  by (simp add: CreateToken_def mock_simps call_simps)

subsection \<open>The single-token calls\<close>

lemma CreateToken_receive:
  "CreateToken env c description scopes s =
     (case validateScopes scopes of
        Some err \<Rightarrow> (Inl err, s)
      | None \<Rightarrow>
          (case json_Marshal
                  \<lparr>reqDescription = description, reqIsActive = False, reqScopes = scopes\<rparr> of
             Inl err \<Rightarrow> (Inl (EncodeError err), s)
           | Inr data \<Rightarrow>
               (case http_NewRequest env ''POST'' (domain c @ TokensURL) (Some data) of
                  Inl err \<Rightarrow> (Inl err, s)
                | Inr req \<Rightarrow> receiveToken env req (token c) s)))"
  unfolding CreateToken_def receiveToken_def ..

lemma GetToken_receive:
  "GetToken env c tokenUUID s =
     (case http_NewRequest env ''GET'' (domain c @ TokenURL tokenUUID) None of
        Inl err \<Rightarrow> (Inl err, s)
      | Inr req \<Rightarrow> receiveToken env req (token c) s)"
  unfolding GetToken_def receiveToken_def ..

lemma UpdateToken_receive:
  "UpdateToken env c tokenUUID description isActive s =
     (case json_Marshal
             \<lparr>reqDescription = description, reqIsActive = isActive, reqScopes = []\<rparr> of
        Inl err \<Rightarrow> (Inl (EncodeError err), s)
      | Inr data \<Rightarrow>
          (case http_NewRequest env ''PATCH'' (domain c @ TokenURL tokenUUID) (Some data) of
             Inl err \<Rightarrow> (Inl err, s)
           | Inr req \<Rightarrow> receiveToken env req (token c) s))"
  unfolding UpdateToken_def receiveToken_def ..

lemma receiveToken_sent:
  "sent (snd (receiveToken env req tok s)) = sent s @ [req]"
  by (simp add: receiveToken_def doRequest_def case_prod_beta sum.case_eq_if)

lemma receiveToken_bad_uuid:
  assumes "executor env req tok (world s) = (Inr response, w')"
    and "json_Unmarshal_result env response = Inr r"
    and "uuid_Parse env (resUUID r) = Inl e"
  shows "receiveToken env req tok s
           = (Inl (InvalidUUID e), \<lparr>world = w', sent = sent s @ [req]\<rparr>)"
  using assms by (simp add: receiveToken_def doRequest_def convertToken_def)

lemma receiveToken_InvalidUUID:
  assumes "receiveToken env req tok s = (Inl (InvalidUUID e), s')"
  shows "\<exists>response w' r. executor env req tok (world s) = (Inr response, w') \<and>
           s' = \<lparr>world = w', sent = sent s @ [req]\<rparr> \<and>
           json_Unmarshal_result env response = Inr r \<and>
           uuid_Parse env (resUUID r) = Inl e"
proof -
  obtain x w' where ex: "executor env req tok (world s) = (x, w')"
    by (cases "executor env req tok (world s)")
  show ?thesis
  proof (cases x)
    case (Inl msg)
    with ex assms show ?thesis by (simp add: receiveToken_def doRequest_def)
  next
    case (Inr response)
    note resp = this
    show ?thesis
    proof (cases "json_Unmarshal_result env response")
      case (Inl msg)
      with ex resp assms show ?thesis by (simp add: receiveToken_def doRequest_def)
    next
      case (Inr r)
      note dec = this
      show ?thesis
      proof (cases "uuid_Parse env (resUUID r)")
        case (Inl e')
        with ex resp dec assms show ?thesis
          by (simp add: receiveToken_def doRequest_def convertToken_def)
      next
        case (Inr u)
        with ex resp dec assms show ?thesis
          by (simp add: receiveToken_def doRequest_def convertToken_def)
      qed
    qed
  qed
qed


lemma http_NewRequest_ok:
  "url_Parse env u = Inr l \<Longrightarrow>
     http_NewRequest env m u b = Inr \<lparr>Method = m, URL = u, Body = b\<rparr>"
  by (simp add: http_NewRequest_def)

lemma http_NewRequest_cases:
  "(\<exists>msg. url_Parse env u = Inl msg \<and> http_NewRequest env m u b = Inl (URLError msg)) \<or>
   (\<exists>l. url_Parse env u = Inr l \<and>
        http_NewRequest env m u b = Inr \<lparr>Method = m, URL = u, Body = b\<rparr>)"
  by (cases "url_Parse env u") (simp_all add: http_NewRequest_def)

lemma GetToken_sent:
  "url_Parse env (domain c @ TokenURL tokenUUID) = Inr l \<Longrightarrow>
   sent (snd (GetToken env c tokenUUID s))
     = sent s @ [\<lparr>Method = ''GET'', URL = domain c @ TokenURL tokenUUID, Body = None\<rparr>]"
  by (simp add: GetToken_receive http_NewRequest_ok receiveToken_sent)

lemma RevokeToken_sent:
  "url_Parse env (domain c @ TokenURL tokenUUID) = Inr l \<Longrightarrow>
   sent (snd (RevokeToken env c tokenUUID s))
     = sent s @ [\<lparr>Method = ''DELETE'', URL = domain c @ TokenURL tokenUUID, Body = None\<rparr>]"
  by (simp add: RevokeToken_def http_NewRequest_ok doRequest_def case_prod_beta sum.case_eq_if)

lemma GetToken_InvalidUUID:
  assumes "GetToken env c tokenUUID s = (Inl (InvalidUUID e), s')"
  shows "\<exists>response w' r.
           executor env \<lparr>Method = ''GET'', URL = domain c @ TokenURL tokenUUID, Body = None\<rparr>
             (token c) (world s) = (Inr response, w') \<and>
           sent s' = sent s @
             [\<lparr>Method = ''GET'', URL = domain c @ TokenURL tokenUUID, Body = None\<rparr>] \<and>
           json_Unmarshal_result env response = Inr r \<and>
           uuid_Parse env (resUUID r) = Inl e"
  using http_NewRequest_cases [of env "domain c @ TokenURL tokenUUID" "''GET''" None]
proof (elim disjE exE conjE)
  fix msg
  assume "http_NewRequest env ''GET'' (domain c @ TokenURL tokenUUID) None = Inl (URLError msg)"
  with assms show ?thesis by (simp add: GetToken_receive)
next
  fix l
  assume "http_NewRequest env ''GET'' (domain c @ TokenURL tokenUUID) None
            = Inr \<lparr>Method = ''GET'', URL = domain c @ TokenURL tokenUUID, Body = None\<rparr>"
  with assms have
    "receiveToken env \<lparr>Method = ''GET'', URL = domain c @ TokenURL tokenUUID, Body = None\<rparr>
       (token c) s = (Inl (InvalidUUID e), s')"
    by (simp add: GetToken_receive)
  from receiveToken_InvalidUUID [OF this] show ?thesis by auto
qed

lemma UpdateToken_InvalidUUID:
  assumes "UpdateToken env c tokenUUID description isActive s = (Inl (InvalidUUID e), s')"
  shows "\<exists>data response w' r.
           executor env
             \<lparr>Method = ''PATCH'', URL = domain c @ TokenURL tokenUUID, Body = Some data\<rparr>
             (token c) (world s) = (Inr response, w') \<and>
           sent s' = sent s @
             [\<lparr>Method = ''PATCH'', URL = domain c @ TokenURL tokenUUID, Body = Some data\<rparr>] \<and>
           json_Unmarshal_result env response = Inr r \<and>
           uuid_Parse env (resUUID r) = Inl e"
proof -
  obtain data where m:
    "json_Marshal \<lparr>reqDescription = description, reqIsActive = isActive, reqScopes = []\<rparr>
       = Inr data"
    by (simp add: json_Marshal_def)
  from http_NewRequest_cases [of env "domain c @ TokenURL tokenUUID" "''PATCH''" "Some data"]
  show ?thesis
  proof (elim disjE exE conjE)
    fix msg
    assume "http_NewRequest env ''PATCH'' (domain c @ TokenURL tokenUUID) (Some data)
              = Inl (URLError msg)"
    with assms m show ?thesis by (simp add: UpdateToken_receive)
  next
    fix l
    assume "http_NewRequest env ''PATCH'' (domain c @ TokenURL tokenUUID) (Some data)
              = Inr \<lparr>Method = ''PATCH'', URL = domain c @ TokenURL tokenUUID, Body = Some data\<rparr>"
    with assms m have
      "receiveToken env
         \<lparr>Method = ''PATCH'', URL = domain c @ TokenURL tokenUUID, Body = Some data\<rparr>
         (token c) s = (Inl (InvalidUUID e), s')"
      by (simp add: UpdateToken_receive)
    from receiveToken_InvalidUUID [OF this] show ?thesis by auto
  qed
qed

lemma RevokeToken_not_InvalidUUID:
  "fst (RevokeToken env c tokenUUID s) \<noteq> Some (InvalidUUID e)"
  by (simp add: RevokeToken_def http_NewRequest_def doRequest_def case_prod_beta
      sum.case_eq_if)

text \<open>
  Claim C9.  The functions \<open>GetToken\<close>, \<open>UpdateToken\<close> and \<open>RevokeToken\<close> hand the string
  domain, \<^verbatim>\<open>/v2/api_tokens/\<close>, \<open>tokenUUID\<close> (the argument as given) to \<^verbatim>\<open>http.NewRequest\<close>
  and never apply \<^verbatim>\<open>uuid.Parse\<close> to the argument.  For every string \<open>tokenUUID\<close>:
  when \<^verbatim>\<open>http.NewRequest\<close> rejects that URL string, each of the three returns its error
  and sends nothing; when it accepts it, each sends one request built from that string.
  An \<open>InvalidUUID\<close> result of \<open>GetToken\<close> or \<open>UpdateToken\<close> means that the request was
  sent, the executor answered with a body, the body decoded, and \<^verbatim>\<open>uuid.Parse\<close> rejected
  the \<^verbatim>\<open>uuid\<close> of the decoded object; \<open>RevokeToken\<close> never returns \<open>InvalidUUID\<close>.
\<close>

theorem tokenUUID_not_validated:
  "(\<forall>msg. url_Parse env (domain c @ ''/v2/api_tokens/'' @ tokenUUID) = Inl msg \<longrightarrow>
      GetToken env c tokenUUID s = (Inl (URLError msg), s) \<and>
      UpdateToken env c tokenUUID description isActive s = (Inl (URLError msg), s) \<and>
      RevokeToken env c tokenUUID s = (Some (URLError msg), s)) \<and>
   (\<forall>l. url_Parse env (domain c @ ''/v2/api_tokens/'' @ tokenUUID) = Inr l \<longrightarrow>
      sent (snd (GetToken env c tokenUUID s))
        = sent s @ [\<lparr>Method = ''GET'', URL = domain c @ ''/v2/api_tokens/'' @ tokenUUID,
                     Body = None\<rparr>] \<and>
      (\<exists>data. sent (snd (UpdateToken env c tokenUUID description isActive s))
        = sent s @ [\<lparr>Method = ''PATCH'', URL = domain c @ ''/v2/api_tokens/'' @ tokenUUID,
                     Body = Some data\<rparr>]) \<and>
      sent (snd (RevokeToken env c tokenUUID s))
        = sent s @ [\<lparr>Method = ''DELETE'', URL = domain c @ ''/v2/api_tokens/'' @ tokenUUID,
                     Body = None\<rparr>]) \<and>
   (\<forall>e s'. GetToken env c tokenUUID s = (Inl (InvalidUUID e), s') \<longrightarrow>
      (\<exists>response w' r.
         executor env \<lparr>Method = ''GET'', URL = domain c @ ''/v2/api_tokens/'' @ tokenUUID,
                       Body = None\<rparr> (token c) (world s) = (Inr response, w') \<and>
         sent s' = sent s @ [\<lparr>Method = ''GET'',
                               URL = domain c @ ''/v2/api_tokens/'' @ tokenUUID, Body = None\<rparr>] \<and>
         json_Unmarshal_result env response = Inr r \<and>
         uuid_Parse env (resUUID r) = Inl e)) \<and>
   (\<forall>e s'. UpdateToken env c tokenUUID description isActive s = (Inl (InvalidUUID e), s') \<longrightarrow>
      (\<exists>data response w' r.
         executor env \<lparr>Method = ''PATCH'', URL = domain c @ ''/v2/api_tokens/'' @ tokenUUID,
                       Body = Some data\<rparr> (token c) (world s) = (Inr response, w') \<and>
         sent s' = sent s @ [\<lparr>Method = ''PATCH'',
                               URL = domain c @ ''/v2/api_tokens/'' @ tokenUUID,
                               Body = Some data\<rparr>] \<and>
         json_Unmarshal_result env response = Inr r \<and>
         uuid_Parse env (resUUID r) = Inl e)) \<and>
   (\<forall>e. fst (RevokeToken env c tokenUUID s) \<noteq> Some (InvalidUUID e))"
proof (intro conjI allI impI)
  fix msg
  assume rej: "url_Parse env (domain c @ ''/v2/api_tokens/'' @ tokenUUID) = Inl msg"
  then show "GetToken env c tokenUUID s = (Inl (URLError msg), s)"
    by (simp add: GetToken_def http_NewRequest_def TokenURL_def)
  from rej show "UpdateToken env c tokenUUID description isActive s = (Inl (URLError msg), s)"
    by (simp add: UpdateToken_def json_Marshal_def http_NewRequest_def TokenURL_def)
  from rej show "RevokeToken env c tokenUUID s = (Some (URLError msg), s)"
    by (simp add: RevokeToken_def http_NewRequest_def TokenURL_def)
next
  fix l
  assume ok: "url_Parse env (domain c @ ''/v2/api_tokens/'' @ tokenUUID) = Inr l"
  then have ok': "url_Parse env (domain c @ TokenURL tokenUUID) = Inr l"
    by (simp add: TokenURL_def)
  from GetToken_sent [OF ok']
  show "sent (snd (GetToken env c tokenUUID s))
          = sent s @ [\<lparr>Method = ''GET'', URL = domain c @ ''/v2/api_tokens/'' @ tokenUUID,
                       Body = None\<rparr>]"
    by (simp add: TokenURL_def)
  from UpdateToken_body [OF ok', of description isActive s]
  show "\<exists>data. sent (snd (UpdateToken env c tokenUUID description isActive s))
          = sent s @ [\<lparr>Method = ''PATCH'', URL = domain c @ ''/v2/api_tokens/'' @ tokenUUID,
                       Body = Some data\<rparr>]"
    by (simp add: TokenURL_def)
  from RevokeToken_sent [OF ok']
  show "sent (snd (RevokeToken env c tokenUUID s))
          = sent s @ [\<lparr>Method = ''DELETE'', URL = domain c @ ''/v2/api_tokens/'' @ tokenUUID,
                       Body = None\<rparr>]"
    by (simp add: TokenURL_def)
next
  fix e s'
  assume "GetToken env c tokenUUID s = (Inl (InvalidUUID e), s')"
  from GetToken_InvalidUUID [OF this]
  show "\<exists>response w' r.
         executor env \<lparr>Method = ''GET'', URL = domain c @ ''/v2/api_tokens/'' @ tokenUUID,
                       Body = None\<rparr> (token c) (world s) = (Inr response, w') \<and>
         sent s' = sent s @ [\<lparr>Method = ''GET'',
                               URL = domain c @ ''/v2/api_tokens/'' @ tokenUUID, Body = None\<rparr>] \<and>
         json_Unmarshal_result env response = Inr r \<and>
         uuid_Parse env (resUUID r) = Inl e"
    by (simp add: TokenURL_def)
next
  fix e s'
  assume "UpdateToken env c tokenUUID description isActive s = (Inl (InvalidUUID e), s')"
  from UpdateToken_InvalidUUID [OF this]
  show "\<exists>data response w' r.
         executor env \<lparr>Method = ''PATCH'', URL = domain c @ ''/v2/api_tokens/'' @ tokenUUID,
                       Body = Some data\<rparr> (token c) (world s) = (Inr response, w') \<and>
         sent s' = sent s @ [\<lparr>Method = ''PATCH'',
                               URL = domain c @ ''/v2/api_tokens/'' @ tokenUUID,
                               Body = Some data\<rparr>] \<and>
         json_Unmarshal_result env response = Inr r \<and>
         uuid_Parse env (resUUID r) = Inl e"
    by (simp add: TokenURL_def)
next
  fix e
  show "fst (RevokeToken env c tokenUUID s) \<noteq> Some (InvalidUUID e)"
    by (rule RevokeToken_not_InvalidUUID)
qed

theorem tokenUUID_not_validated_witness:
  "url_Parse (mock_env canned) (domain (mock_client True) @ ''/v2/api_tokens/'' @ ''not a uuid'')
     = Inr ''https://hub.docker.com/v2/api_tokens/not a uuid'' \<and>
   sent (snd (GetToken (mock_env canned) (mock_client True) ''not a uuid'' (start [Inr ''good''])))
     = [\<lparr>Method = ''GET'', URL = ''https://hub.docker.com/v2/api_tokens/not a uuid'',
         Body = None\<rparr>] \<and>
   fst (GetToken (mock_env canned) (mock_client True) ''not a uuid'' (start [Inr ''good'']))
     = Inr (token_of uuid1 ''d'') \<and>
   GetToken (mock_env canned) (mock_client True) uuid1 (start [Inr ''baduuid''])
     = (Inl (InvalidUUID ''invalid UUID length''),
        \<lparr>world = [], sent = [\<lparr>Method = ''GET'',
           URL = ''https://hub.docker.com/v2/api_tokens/'' @ uuid1, Body = None\<rparr>]\<rparr>) \<and>
   UpdateToken (mock_env canned) (mock_client True) uuid1 ''d'' True (start [Inr ''baduuid''])
     = (Inl (InvalidUUID ''invalid UUID length''),
        \<lparr>world = [], sent = [\<lparr>Method = ''PATCH'',
           URL = ''https://hub.docker.com/v2/api_tokens/'' @ uuid1,
           Body = Some (JObject [(''token_label'', JString ''d''),
                                 (''is_active'', JBool True)])\<rparr>]\<rparr>) \<and>
   fst (RevokeToken (mock_env canned) (mock_client True) ''not a uuid'' (start [Inr ''good'']))
     = None \<and>
   url_Parse (mock_env canned) (domain (mock_client True) @ ''/v2/api_tokens/'' @ ''a'' @ [CHR 0x7F])
     = Inl ''invalid control character in URL'' \<and>
   fst (RevokeToken (mock_env canned) (mock_client True) (''a'' @ [CHR 0x7F])
          (start [Inr ''good'']))
     = Some (URLError ''invalid control character in URL'')"
  using tokenUUID_not_validated
          [of "mock_env canned" "mock_client True" "''not a uuid''" "start [Inr ''good'']"
              "''d''" True]
        tokenUUID_not_validated
          [of "mock_env canned" "mock_client True" uuid1 "start [Inr ''baduuid'']" "''d''" True]
        tokenUUID_not_validated
          [of "mock_env canned" "mock_client True" "''a'' @ [CHR 0x7F]" "start [Inr ''good'']"
              "''d''" True]
  by (simp add: GetToken_def UpdateToken_def RevokeToken_def mock_simps call_simps)

text \<open>
  A \<open>tokenUUID\<close> holding the control character DEL: \<^verbatim>\<open>http.NewRequest\<close> refuses the URL,
  so each of the three calls returns that error with the state as it was; nothing is
  sent.
\<close>

theorem tokenUUID_rejected_before_request:
  "GetToken (mock_env canned) (mock_client True) [CHR 0x7F] (start [Inr ''good''])
     = (Inl (URLError ''invalid control character in URL''), start [Inr ''good'']) \<and>
   UpdateToken (mock_env canned) (mock_client True) [CHR 0x7F] ''d'' True (start [Inr ''good''])
     = (Inl (URLError ''invalid control character in URL''), start [Inr ''good'']) \<and>
   RevokeToken (mock_env canned) (mock_client True) [CHR 0x7F] (start [Inr ''good''])
     = (Some (URLError ''invalid control character in URL''), start [Inr ''good'']) \<and>
   sent (snd (GetToken (mock_env canned) (mock_client True) [CHR 0x7F]
                (start [Inr ''good'']))) = [] \<and>
   sent (snd (UpdateToken (mock_env canned) (mock_client True) [CHR 0x7F] ''d'' True
                (start [Inr ''good'']))) = [] \<and>
   sent (snd (RevokeToken (mock_env canned) (mock_client True) [CHR 0x7F]
                (start [Inr ''good'']))) = []"
  by (simp add: GetToken_def UpdateToken_def RevokeToken_def mock_simps call_simps)

subsection \<open>Pagination\<close>



lemma fetchRest_follows:
  "follows env c u s pages u' s' \<Longrightarrow>
     fetchRest env c acc u s = fetchRest env c (acc @ concat (map fst pages)) u' s'"
proof (induction arbitrary: acc rule: follows.induct)
  case (follows_none u s)
  show ?case by simp
next
  case (follows_page u s pageTokens n s' pages u' s'')
  have "fetchRest env c acc u s = fetchRest env c (acc @ pageTokens) n s'"
    using follows_page.hyps(1,2) by (subst fetchRest.simps) simp
  also have "\<dots> = fetchRest env c ((acc @ pageTokens) @ concat (map fst pages)) u' s''"
    by (rule follows_page.IH)
  finally show ?case by simp
qed

lemma fetchRest_stops:
  "u = [] \<Longrightarrow> fetchRest env c acc u s = Some (Inr acc, s)"
  by (subst fetchRest.simps) simp

lemma fetchRest_fails:
  "u \<noteq> [] \<Longrightarrow> getTokensPage env c u s = (Inl err, s') \<Longrightarrow>
     fetchRest env c acc u s = Some (Inl err, s')"
  by (subst fetchRest.simps) simp

lemma fetchRest_Some_follows:
  fixes env :: "('u, 't, 'l, 'w) env"
  assumes "fetchRest env c acc u s = Some y"
  shows "\<exists>pages u' s'. follows env c u s pages u' s' \<and>
           (u' = [] \<or> (\<exists>err s3. getTokensPage env c u' s' = (Inl err, s3)))"
proof (rule fetchRest.raw_induct
    [where P = "\<lambda>env c acc u s y. \<exists>pages u' s'. follows env c u s pages u' s' \<and>
                  (u' = [] \<or> (\<exists>err s3. getTokensPage env c u' s' = (Inl err, s3)))",
     OF _ assms])
  fix f :: "('u, 't, 'l, 'w) env \<Rightarrow> Client \<Rightarrow> ('u, 't) Token list \<Rightarrow> string \<Rightarrow> 'w state
              \<Rightarrow> ((error + ('u, 't) Token list) \<times> 'w state) option"
  fix env :: "('u, 't, 'l, 'w) env" and c tokens nxt s y
  assume IH: "\<And>env c tokens nxt s y. f env c tokens nxt s = Some y \<Longrightarrow>
                \<exists>pages u' s'. follows env c nxt s pages u' s' \<and>
                  (u' = [] \<or> (\<exists>err s3. getTokensPage env c u' s' = (Inl err, s3)))"
  assume body:
    "(if nxt = [] then Some (Inr tokens, s)
      else case getTokensPage env c nxt s of
             (Inl err, s') \<Rightarrow> Some (Inl err, s')
           | (Inr (pageTokens, n), s') \<Rightarrow> f env c (tokens @ pageTokens) n s') = Some y"
  show "\<exists>pages u' s'. follows env c nxt s pages u' s' \<and>
          (u' = [] \<or> (\<exists>err s3. getTokensPage env c u' s' = (Inl err, s3)))"
  proof (cases "nxt = []")
    case True
    then show ?thesis using follows.follows_none by blast
  next
    case False
    show ?thesis
    proof (cases "getTokensPage env c nxt s")
      case (Pair r s1)
      show ?thesis
      proof (cases r)
        case (Inl err)
        with Pair show ?thesis using follows.follows_none by blast
      next
        case (Inr pn)
        obtain pageTokens n where pn: "pn = (pageTokens, n)" by (cases pn)
        from body False Pair Inr pn have "f env c (tokens @ pageTokens) n s1 = Some y"
          by simp
        then obtain pages u' s' where
          fol: "follows env c n s1 pages u' s'" and
          fin: "u' = [] \<or> (\<exists>err s3. getTokensPage env c u' s' = (Inl err, s3))"
          using IH by blast
        from False Pair Inr pn fol
        have "follows env c nxt s ((pageTokens, n) # pages) u' s'"
          by (intro follows.follows_page) simp_all
        with fin show ?thesis by blast
      qed
    qed
  qed
qed

lemma GetTokens_first_error:
  "url_Parse env (domain c @ TokensURL) = Inr l \<Longrightarrow>
   getTokensPage env c (firstPage env l) s = (Inl err, s1) \<Longrightarrow>
   GetTokens env c s = Some (Inl err, s1)"
  by (simp add: GetTokens_def firstPage_def)


lemma GetTokens_rest:
  "url_Parse env (domain c @ TokensURL) = Inr l \<Longrightarrow>
   getTokensPage env c (firstPage env l) s = (Inr (tokens, nxt), s1) \<Longrightarrow>
   fetchAllElements c \<Longrightarrow>
   GetTokens env c s = fetchRest env c tokens nxt s1"
  by (simp add: GetTokens_def firstPage_def)

text \<open>The test doubles on two pages.\<close>

lemmas page_simps = getTokensPage_def mock_simps call_simps

lemma mock_url_ok:
  "url_Parse (mock_env ex) (domain (mock_client b) @ TokensURL)
     = Inr ''https://hub.docker.com/v2/api_tokens''"
  by (simp add: mock_simps call_simps)

lemma mock_first_page:
  "getTokensPage (mock_env canned) (mock_client b)
       (firstPage (mock_env canned) ''https://hub.docker.com/v2/api_tokens'')
       (start (Inr ''page1'' # rest))
     = (Inr ([token_of uuid1 ''a'', token_of uuid2 ''b''], ''page2url''),
        \<lparr>world = rest,
         sent = [pageRequest ''https://hub.docker.com/v2/api_tokens?page=1&page_size=100'']\<rparr>)"
  by (simp add: page_simps)

lemma mock_second_page:
  "getTokensPage (mock_env canned) (mock_client b) ''page2url''
       \<lparr>world = [Inr ''page2''], sent = log\<rparr>
     = (Inr ([token_of uuid3 ''c''], []),
        \<lparr>world = [], sent = log @ [pageRequest ''page2url'']\<rparr>)"
  by (simp add: page_simps)

lemma mock_second_page_fails:
  "getTokensPage (mock_env canned) (mock_client b) ''page2url''
       \<lparr>world = [Inl ''503''], sent = log\<rparr>
     = (Inl (TransportError ''503''),
        \<lparr>world = [], sent = log @ [pageRequest ''page2url'']\<rparr>)"
  by (simp add: page_simps)

lemma mock_follows_second:
  "follows (mock_env canned) (mock_client b) ''page2url''
     \<lparr>world = [Inr ''page2''], sent = log\<rparr>
     [([token_of uuid3 ''c''], [])] []
     \<lparr>world = [], sent = log @ [pageRequest ''page2url'']\<rparr>"
  by (rule follows.follows_page [OF _ mock_second_page follows.follows_none]) simp



text \<open>
  Claim C3.  If the first page fails with \<open>err\<close>, \<open>GetTokens\<close> returns \<open>err\<close>.  With the
  fetch-all flag on, if the first page and then \<open>pages\<close> were fetched without error and
  the page at the next (non-empty) link fails with \<open>err\<close>, \<open>GetTokens\<close> returns \<open>err\<close>
  and none of the tokens collected so far (the result is the error alone).
\<close>

theorem GetTokens_error_discards_pages:
  assumes "url_Parse env (domain c @ TokensURL) = Inr l"
  shows
    "(\<forall>err s1. getTokensPage env c (firstPage env l) s = (Inl err, s1) \<longrightarrow>
        GetTokens env c s = Some (Inl err, s1)) \<and>
     (\<forall>tokens nxt s1 pages u s2 err s3.
        fetchAllElements c \<and>
        getTokensPage env c (firstPage env l) s = (Inr (tokens, nxt), s1) \<and>
        follows env c nxt s1 pages u s2 \<and> u \<noteq> [] \<and>
        getTokensPage env c u s2 = (Inl err, s3) \<longrightarrow>
        GetTokens env c s = Some (Inl err, s3))"
proof (intro conjI allI impI)
  fix err s1
  assume "getTokensPage env c (firstPage env l) s = (Inl err, s1)"
  with assms show "GetTokens env c s = Some (Inl err, s1)"
    by (rule GetTokens_first_error)
next
  fix tokens nxt s1 pages u s2 err s3
  assume h: "fetchAllElements c \<and>
        getTokensPage env c (firstPage env l) s = (Inr (tokens, nxt), s1) \<and>
        follows env c nxt s1 pages u s2 \<and> u \<noteq> [] \<and>
        getTokensPage env c u s2 = (Inl err, s3)"
  then have all: "fetchAllElements c"
    and first: "getTokensPage env c (firstPage env l) s = (Inr (tokens, nxt), s1)"
    and fol: "follows env c nxt s1 pages u s2"
    and ne: "u \<noteq> []"
    and fail: "getTokensPage env c u s2 = (Inl err, s3)"
    by simp_all
  from assms first all have "GetTokens env c s = fetchRest env c tokens nxt s1"
    by (rule GetTokens_rest)
  also from fol have "\<dots> = fetchRest env c (tokens @ concat (map fst pages)) u s2"
    by (rule fetchRest_follows)
  also from ne fail have "\<dots> = Some (Inl err, s3)"
    by (rule fetchRest_fails)
  finally show "GetTokens env c s = Some (Inl err, s3)" .
qed

theorem GetTokens_error_discards_pages_witness:
  "GetTokens (mock_env canned) (mock_client True) (start [Inr ''page1'', Inl ''503''])
     = Some (Inl (TransportError ''503''),
        \<lparr>world = [],
         sent = [pageRequest ''https://hub.docker.com/v2/api_tokens?page=1&page_size=100'',
                 pageRequest ''page2url'']\<rparr>)"
proof -
  have "follows (mock_env canned) (mock_client True) ''page2url''
          \<lparr>world = [Inl ''503''],
           sent = [pageRequest ''https://hub.docker.com/v2/api_tokens?page=1&page_size=100'']\<rparr>
          [] ''page2url''
          \<lparr>world = [Inl ''503''],
           sent = [pageRequest ''https://hub.docker.com/v2/api_tokens?page=1&page_size=100'']\<rparr>"
    by (rule follows.follows_none)
  with GetTokens_error_discards_pages
         [OF mock_url_ok, of canned True "start [Inr ''page1'', Inl ''503'']"]
       mock_first_page [of True "[Inl ''503'']"]
       mock_second_page_fails [of True
         "[pageRequest ''https://hub.docker.com/v2/api_tokens?page=1&page_size=100'']"]
  show ?thesis
    by (simp add: mock_client_def) blast
qed

text \<open>
  Claim C10.  With the fetch-all flag on and the first page fetched, \<open>GetTokens\<close> returns
  (its value is not \<open>None\<close>) exactly when following the links from \<open>nxt\<close> reaches, after
  some number of pages, an empty link or a page whose fetch fails.
\<close>

theorem GetTokens_terminates_iff:
  assumes "url_Parse env (domain c @ TokensURL) = Inr l"
    and "getTokensPage env c (firstPage env l) s = (Inr (tokens, nxt), s1)"
    and "fetchAllElements c"
  shows
    "GetTokens env c s \<noteq> None \<longleftrightarrow>
       (\<exists>pages u s2. follows env c nxt s1 pages u s2 \<and>
          (u = [] \<or> (\<exists>err s3. getTokensPage env c u s2 = (Inl err, s3))))"
proof
  assume "GetTokens env c s \<noteq> None"
  with assms have "\<exists>y. fetchRest env c tokens nxt s1 = Some y"
    by (simp add: GetTokens_rest)
  then show "\<exists>pages u s2. follows env c nxt s1 pages u s2 \<and>
          (u = [] \<or> (\<exists>err s3. getTokensPage env c u s2 = (Inl err, s3)))"
    using fetchRest_Some_follows by blast
next
  assume "\<exists>pages u s2. follows env c nxt s1 pages u s2 \<and>
          (u = [] \<or> (\<exists>err s3. getTokensPage env c u s2 = (Inl err, s3)))"
  then obtain pages u s2 where
    fol: "follows env c nxt s1 pages u s2" and
    fin: "u = [] \<or> (\<exists>err s3. getTokensPage env c u s2 = (Inl err, s3))"
    by blast
  have "fetchRest env c (tokens @ concat (map fst pages)) u s2 \<noteq> None"
  proof (cases "u = []")
    case True
    then show ?thesis by (simp add: fetchRest_stops)
  next
    case False
    with fin obtain err s3 where "getTokensPage env c u s2 = (Inl err, s3)" by blast
    with False show ?thesis by (simp add: fetchRest_fails)
  qed
  with fol have "fetchRest env c tokens nxt s1 \<noteq> None"
    by (simp add: fetchRest_follows)
  with assms show "GetTokens env c s \<noteq> None"
    by (simp add: GetTokens_rest)
qed

text \<open>A remote side that serves the same non-empty link for ever: the call never returns.\<close>

lemma forever_first_page:
  "getTokensPage (mock_env forever) (mock_client b)
       (firstPage (mock_env forever) ''https://hub.docker.com/v2/api_tokens'') (start ())
     = (Inr ([], ''again''),
        \<lparr>world = (),
         sent = [pageRequest ''https://hub.docker.com/v2/api_tokens?page=1&page_size=100'']\<rparr>)"
  by (simp add: page_simps)

lemma forever_page:
  "getTokensPage (mock_env forever) c ''again'' s
     = (Inr ([], ''again''), \<lparr>world = world s, sent = sent s @ [pageRequest ''again'']\<rparr>)"
  by (simp add: page_simps)

lemma forever_follows:
  "follows (mock_env forever) c u s pages u' s' \<Longrightarrow> u = ''again'' \<Longrightarrow> u' = ''again''"
proof (induction rule: follows.induct)
  case (follows_none u s)
  then show ?case by simp
next
  case (follows_page u s pageTokens n s' pages u' s'')
  from follows_page.hyps(2) follows_page.prems have "n = ''again''"
    by (simp add: forever_page)
  then show ?case by (rule follows_page.IH)
qed

theorem GetTokens_terminates_iff_witness:
  "GetTokens (mock_env canned) (mock_client True) (start [Inr ''page1'', Inr ''page2'']) \<noteq> None \<and>
   GetTokens (mock_env forever) (mock_client True) (start ()) = None"
proof
  have "fetchAllElements (mock_client True)" by (simp add: mock_client_def)
  from GetTokens_terminates_iff [OF mock_url_ok mock_first_page this]
       mock_follows_second [of True
         "[pageRequest ''https://hub.docker.com/v2/api_tokens?page=1&page_size=100'']"]
  show "GetTokens (mock_env canned) (mock_client True) (start [Inr ''page1'', Inr ''page2''])
          \<noteq> None"
    by blast
next
  have all: "fetchAllElements (mock_client True)" by (simp add: mock_client_def)
  have "\<not> (\<exists>pages u s2.
            follows (mock_env forever) (mock_client True) ''again''
              \<lparr>world = (),
               sent = [pageRequest
                 ''https://hub.docker.com/v2/api_tokens?page=1&page_size=100'']\<rparr>
              pages u s2 \<and>
            (u = [] \<or>
             (\<exists>err s3. getTokensPage (mock_env forever) (mock_client True) u s2
                          = (Inl err, s3))))"
  proof
    assume "\<exists>pages u s2.
            follows (mock_env forever) (mock_client True) ''again''
              \<lparr>world = (),
               sent = [pageRequest
                 ''https://hub.docker.com/v2/api_tokens?page=1&page_size=100'']\<rparr>
              pages u s2 \<and>
            (u = [] \<or>
             (\<exists>err s3. getTokensPage (mock_env forever) (mock_client True) u s2
                          = (Inl err, s3)))"
    then obtain pages u s2 where
      fol: "follows (mock_env forever) (mock_client True) ''again''
              \<lparr>world = (),
               sent = [pageRequest
                 ''https://hub.docker.com/v2/api_tokens?page=1&page_size=100'']\<rparr>
              pages u s2" and
      fin: "u = [] \<or>
             (\<exists>err s3. getTokensPage (mock_env forever) (mock_client True) u s2
                          = (Inl err, s3))"
      by blast
    from fol have "u = ''again''" by (rule forever_follows) simp
    with fin show False by (simp add: forever_page)
  qed
  with GetTokens_terminates_iff [OF mock_url_ok forever_first_page all]
  have "\<not> GetTokens (mock_env forever) (mock_client True) (start ()) \<noteq> None"
    by blast
  then show "GetTokens (mock_env forever) (mock_client True) (start ()) = None"
    by (cases "GetTokens (mock_env forever) (mock_client True) (start ())") simp_all
qed

subsection \<open>Responses with a malformed UUID\<close>

lemma convertToken_bad_uuid:
  "uuid_Parse env (resUUID r) = Inl e \<Longrightarrow> convertToken env r = Inl (InvalidUUID e)"
  by (simp add: convertToken_def)

lemma convertResults_bad_uuid:
  "r \<in> set rs \<Longrightarrow> uuid_Parse env (resUUID r) = Inl e \<Longrightarrow>
     \<exists>e'. convertResults env rs acc = Inl (InvalidUUID e')"
proof (induction rs arbitrary: acc)
  case Nil
  then show ?case by simp
next
  case (Cons x xs)
  show ?case
  proof (cases "uuid_Parse env (resUUID x)")
    case (Inl e')
    then show ?thesis by (simp add: convertToken_def)
  next
    case (Inr u)
    with Cons.prems have "r \<in> set xs" by auto
    from Cons.IH [OF this Cons.prems(2)] Inr show ?thesis
      by (simp add: convertToken_def)
  qed
qed

lemma getTokensPage_bad_uuid:
  assumes "http_NewRequest env ''GET'' u None = Inr req"
    and "executor env req (token c) (world s) = (Inr response, w')"
    and "json_Unmarshal_response env response = Inr page"
    and "r \<in> set (Results page)"
    and "uuid_Parse env (resUUID r) = Inl e"
  shows "\<exists>e'. getTokensPage env c u s
                = (Inl (InvalidUUID e'), \<lparr>world = w', sent = sent s @ [req]\<rparr>)"
proof -
  from convertResults_bad_uuid [OF assms(4,5)]
  obtain e' where "convertResults env (Results page) [] = Inl (InvalidUUID e')" by blast
  with assms(1-3) show ?thesis
    by (simp add: getTokensPage_def doRequest_def)
qed

text \<open>
  Claim C4.  Let \<open>r\<close> be a wire token object whose \<^verbatim>\<open>uuid\<close> does not parse.  Its conversion
  fails with \<open>InvalidUUID\<close>.  When the response of \<open>CreateToken\<close>, \<open>GetToken\<close> or
  \<open>UpdateToken\<close> decodes to \<open>r\<close>, the call returns that \<open>InvalidUUID\<close> error and no token.
  When a page of \<open>getTokensPage\<close> holds \<open>r\<close> among its results, the page fails with an
  \<open>InvalidUUID\<close> error (that of the first result that does not parse), and so does
  \<open>GetTokens\<close>, whether the page is the first one or one reached by following links.
\<close>

theorem malformed_uuid_fails:
  assumes bad: "uuid_Parse env (resUUID r) = Inl e"
  shows
    "convertToken env r = Inl (InvalidUUID e) \<and>
     (\<forall>data req response w'.
        validateScopes scopes = None \<and>
        json_Marshal \<lparr>reqDescription = description, reqIsActive = False, reqScopes = scopes\<rparr>
          = Inr data \<and>
        http_NewRequest env ''POST'' (domain c @ TokensURL) (Some data) = Inr req \<and>
        executor env req (token c) (world s) = (Inr response, w') \<and>
        json_Unmarshal_result env response = Inr r \<longrightarrow>
        CreateToken env c description scopes s
          = (Inl (InvalidUUID e), \<lparr>world = w', sent = sent s @ [req]\<rparr>)) \<and>
     (\<forall>req response w'.
        http_NewRequest env ''GET'' (domain c @ TokenURL tokenUUID) None = Inr req \<and>
        executor env req (token c) (world s) = (Inr response, w') \<and>
        json_Unmarshal_result env response = Inr r \<longrightarrow>
        GetToken env c tokenUUID s
          = (Inl (InvalidUUID e), \<lparr>world = w', sent = sent s @ [req]\<rparr>)) \<and>
     (\<forall>data req response w'.
        json_Marshal \<lparr>reqDescription = description, reqIsActive = isActive, reqScopes = []\<rparr>
          = Inr data \<and>
        http_NewRequest env ''PATCH'' (domain c @ TokenURL tokenUUID) (Some data) = Inr req \<and>
        executor env req (token c) (world s) = (Inr response, w') \<and>
        json_Unmarshal_result env response = Inr r \<longrightarrow>
        UpdateToken env c tokenUUID description isActive s
          = (Inl (InvalidUUID e), \<lparr>world = w', sent = sent s @ [req]\<rparr>)) \<and>
     (\<forall>u req response w' page.
        http_NewRequest env ''GET'' u None = Inr req \<and>
        executor env req (token c) (world s) = (Inr response, w') \<and>
        json_Unmarshal_response env response = Inr page \<and>
        r \<in> set (Results page) \<longrightarrow>
        (\<exists>e'. getTokensPage env c u s
                = (Inl (InvalidUUID e'), \<lparr>world = w', sent = sent s @ [req]\<rparr>))) \<and>
     (\<forall>l req response w' page.
        url_Parse env (domain c @ TokensURL) = Inr l \<and>
        http_NewRequest env ''GET'' (firstPage env l) None = Inr req \<and>
        executor env req (token c) (world s) = (Inr response, w') \<and>
        json_Unmarshal_response env response = Inr page \<and>
        r \<in> set (Results page) \<longrightarrow>
        (\<exists>e'. GetTokens env c s
                = Some (Inl (InvalidUUID e'), \<lparr>world = w', sent = sent s @ [req]\<rparr>))) \<and>
     (\<forall>l tokens nxt s1 pages u s2 req response w' page.
        url_Parse env (domain c @ TokensURL) = Inr l \<and>
        fetchAllElements c \<and>
        getTokensPage env c (firstPage env l) s = (Inr (tokens, nxt), s1) \<and>
        follows env c nxt s1 pages u s2 \<and> u \<noteq> [] \<and>
        http_NewRequest env ''GET'' u None = Inr req \<and>
        executor env req (token c) (world s2) = (Inr response, w') \<and>
        json_Unmarshal_response env response = Inr page \<and>
        r \<in> set (Results page) \<longrightarrow>
        (\<exists>e'. GetTokens env c s
                = Some (Inl (InvalidUUID e'), \<lparr>world = w', sent = sent s2 @ [req]\<rparr>)))"
proof (intro conjI allI impI)
  show "convertToken env r = Inl (InvalidUUID e)"
    using bad by (rule convertToken_bad_uuid)
next
  fix data req response w'
  assume h: "validateScopes scopes = None \<and>
        json_Marshal \<lparr>reqDescription = description, reqIsActive = False, reqScopes = scopes\<rparr>
          = Inr data \<and>
        http_NewRequest env ''POST'' (domain c @ TokensURL) (Some data) = Inr req \<and>
        executor env req (token c) (world s) = (Inr response, w') \<and>
        json_Unmarshal_result env response = Inr r"
  then have "CreateToken env c description scopes s = receiveToken env req (token c) s"
    by (simp add: CreateToken_receive)
  also from h bad have "\<dots> = (Inl (InvalidUUID e), \<lparr>world = w', sent = sent s @ [req]\<rparr>)"
    by (simp add: receiveToken_bad_uuid)
  finally show "CreateToken env c description scopes s
          = (Inl (InvalidUUID e), \<lparr>world = w', sent = sent s @ [req]\<rparr>)" .
next
  fix req response w'
  assume h: "http_NewRequest env ''GET'' (domain c @ TokenURL tokenUUID) None = Inr req \<and>
        executor env req (token c) (world s) = (Inr response, w') \<and>
        json_Unmarshal_result env response = Inr r"
  then have "GetToken env c tokenUUID s = receiveToken env req (token c) s"
    by (simp add: GetToken_receive)
  also from h bad have "\<dots> = (Inl (InvalidUUID e), \<lparr>world = w', sent = sent s @ [req]\<rparr>)"
    by (simp add: receiveToken_bad_uuid)
  finally show "GetToken env c tokenUUID s
          = (Inl (InvalidUUID e), \<lparr>world = w', sent = sent s @ [req]\<rparr>)" .
next
  fix data req response w'
  assume h: "json_Marshal \<lparr>reqDescription = description, reqIsActive = isActive, reqScopes = []\<rparr>
          = Inr data \<and>
        http_NewRequest env ''PATCH'' (domain c @ TokenURL tokenUUID) (Some data) = Inr req \<and>
        executor env req (token c) (world s) = (Inr response, w') \<and>
        json_Unmarshal_result env response = Inr r"
  then have "UpdateToken env c tokenUUID description isActive s
               = receiveToken env req (token c) s"
    by (simp add: UpdateToken_receive)
  also from h bad have "\<dots> = (Inl (InvalidUUID e), \<lparr>world = w', sent = sent s @ [req]\<rparr>)"
    by (simp add: receiveToken_bad_uuid)
  finally show "UpdateToken env c tokenUUID description isActive s
          = (Inl (InvalidUUID e), \<lparr>world = w', sent = sent s @ [req]\<rparr>)" .
next
  fix u req response w' page
  assume "http_NewRequest env ''GET'' u None = Inr req \<and>
        executor env req (token c) (world s) = (Inr response, w') \<and>
        json_Unmarshal_response env response = Inr page \<and>
        r \<in> set (Results page)"
  then have "http_NewRequest env ''GET'' u None = Inr req"
    and "executor env req (token c) (world s) = (Inr response, w')"
    and "json_Unmarshal_response env response = Inr page"
    and "r \<in> set (Results page)"
    by simp_all
  then show "\<exists>e'. getTokensPage env c u s
                = (Inl (InvalidUUID e'), \<lparr>world = w', sent = sent s @ [req]\<rparr>)"
    using bad by (rule getTokensPage_bad_uuid)
next
  fix l req response w' page
  assume h: "url_Parse env (domain c @ TokensURL) = Inr l \<and>
        http_NewRequest env ''GET'' (firstPage env l) None = Inr req \<and>
        executor env req (token c) (world s) = (Inr response, w') \<and>
        json_Unmarshal_response env response = Inr page \<and>
        r \<in> set (Results page)"
  then have "http_NewRequest env ''GET'' (firstPage env l) None = Inr req"
    and "executor env req (token c) (world s) = (Inr response, w')"
    and "json_Unmarshal_response env response = Inr page"
    and "r \<in> set (Results page)"
    by simp_all
  then have "\<exists>e'. getTokensPage env c (firstPage env l) s
       = (Inl (InvalidUUID e'), \<lparr>world = w', sent = sent s @ [req]\<rparr>)"
    using bad by (rule getTokensPage_bad_uuid)
  then obtain e' where
    "getTokensPage env c (firstPage env l) s
       = (Inl (InvalidUUID e'), \<lparr>world = w', sent = sent s @ [req]\<rparr>)" ..
  with h have "GetTokens env c s
                = Some (Inl (InvalidUUID e'), \<lparr>world = w', sent = sent s @ [req]\<rparr>)"
    by (simp add: GetTokens_first_error)
  then show "\<exists>e'. GetTokens env c s
                = Some (Inl (InvalidUUID e'), \<lparr>world = w', sent = sent s @ [req]\<rparr>)" ..
next
  fix l tokens nxt s1 pages u s2 req response w' page
  assume h: "url_Parse env (domain c @ TokensURL) = Inr l \<and>
        fetchAllElements c \<and>
        getTokensPage env c (firstPage env l) s = (Inr (tokens, nxt), s1) \<and>
        follows env c nxt s1 pages u s2 \<and> u \<noteq> [] \<and>
        http_NewRequest env ''GET'' u None = Inr req \<and>
        executor env req (token c) (world s2) = (Inr response, w') \<and>
        json_Unmarshal_response env response = Inr page \<and>
        r \<in> set (Results page)"
  then have url: "url_Parse env (domain c @ TokensURL) = Inr l"
    and all: "fetchAllElements c"
    and first: "getTokensPage env c (firstPage env l) s = (Inr (tokens, nxt), s1)"
    and fol: "follows env c nxt s1 pages u s2"
    and ne: "u \<noteq> []"
    by simp_all
  from h have "http_NewRequest env ''GET'' u None = Inr req"
    and "executor env req (token c) (world s2) = (Inr response, w')"
    and "json_Unmarshal_response env response = Inr page"
    and "r \<in> set (Results page)"
    by simp_all
  then have "\<exists>e'. getTokensPage env c u s2
       = (Inl (InvalidUUID e'), \<lparr>world = w', sent = sent s2 @ [req]\<rparr>)"
    using bad by (rule getTokensPage_bad_uuid)
  then obtain e' where fail:
    "getTokensPage env c u s2
       = (Inl (InvalidUUID e'), \<lparr>world = w', sent = sent s2 @ [req]\<rparr>)" ..
  from url first all have "GetTokens env c s = fetchRest env c tokens nxt s1"
    by (rule GetTokens_rest)
  also from fol have "\<dots> = fetchRest env c (tokens @ concat (map fst pages)) u s2"
    by (rule fetchRest_follows)
  also from ne fail
  have "\<dots> = Some (Inl (InvalidUUID e'), \<lparr>world = w', sent = sent s2 @ [req]\<rparr>)"
    by (rule fetchRest_fails)
  finally show "\<exists>e'. GetTokens env c s
                = Some (Inl (InvalidUUID e'), \<lparr>world = w', sent = sent s2 @ [req]\<rparr>)" ..
qed

theorem malformed_uuid_fails_witness:
  "uuid_Parse (mock_env canned) (resUUID (wire ''not-a-uuid'' ''d''))
     = Inl ''invalid UUID length'' \<and>
   CreateToken (mock_env canned) (mock_client True) ''x'' [''repo:public_read'']
       (start [Inr ''baduuid''])
     = (Inl (InvalidUUID ''invalid UUID length''),
        \<lparr>world = [], sent = [\<lparr>Method = ''POST'', URL = ''https://hub.docker.com/v2/api_tokens'',
           Body = Some (JObject [(''token_label'', JString ''x''),
             (''scopes'', JArray [JString ''repo:public_read''])])\<rparr>]\<rparr>) \<and>
   GetToken (mock_env canned) (mock_client True) uuid1 (start [Inr ''baduuid''])
     = (Inl (InvalidUUID ''invalid UUID length''),
        \<lparr>world = [], sent = [\<lparr>Method = ''GET'',
           URL = ''https://hub.docker.com/v2/api_tokens/'' @ uuid1, Body = None\<rparr>]\<rparr>) \<and>
   UpdateToken (mock_env canned) (mock_client True) uuid1 ''d'' True (start [Inr ''baduuid''])
     = (Inl (InvalidUUID ''invalid UUID length''),
        \<lparr>world = [], sent = [\<lparr>Method = ''PATCH'',
           URL = ''https://hub.docker.com/v2/api_tokens/'' @ uuid1,
           Body = Some (JObject [(''token_label'', JString ''d''),
                                 (''is_active'', JBool True)])\<rparr>]\<rparr>) \<and>
   GetTokens (mock_env canned) (mock_client False) (start [Inr ''pagebad''])
     = Some (Inl (InvalidUUID ''invalid UUID length''),
        \<lparr>world = [],
         sent = [pageRequest ''https://hub.docker.com/v2/api_tokens?page=1&page_size=100'']\<rparr>) \<and>
   GetTokens (mock_env canned) (mock_client True) (start [Inr ''page1'', Inr ''pagebad''])
     = Some (Inl (InvalidUUID ''invalid UUID length''),
        \<lparr>world = [],
         sent = [pageRequest ''https://hub.docker.com/v2/api_tokens?page=1&page_size=100'',
                 pageRequest ''page2url'']\<rparr>)"
  using malformed_uuid_fails
          [where env = "mock_env canned" and r = "wire ''not-a-uuid'' ''d''"
             and e = "''invalid UUID length''" and c = "mock_client True"
             and scopes = "[''repo:public_read'']" and description = "''x''"
             and s = "start [Inr ''baduuid'']" and tokenUUID = uuid1 and isActive = True]
        malformed_uuid_fails
          [where env = "mock_env canned" and r = "wire ''not-a-uuid'' ''b''"
             and e = "''invalid UUID length''" and c = "mock_client True"
             and s = "start [Inr ''page1'', Inr ''pagebad'']"]
  by (simp add: CreateToken_def GetToken_def UpdateToken_def GetTokens_def fetchRest.simps
      page_simps)

end
